theory Spec2Isabelle
  imports Main "HOL-Library.Sublist"
begin

section \<open>JavaScript values used by the relay client\<close>

text \<open>
  A parsed JSON value, as \<^verbatim>\<open>JSON.parse\<close> (behind \<^verbatim>\<open>res.json()\<close>) hands it to the code.
  An object is the list of its own properties in enumeration order, with distinct keys.
  Numbers are restricted to the integers that a double holds exactly and prints in plain
  decimal; strings are lists of code units.
\<close>

datatype json =
    JNull
  | JBool bool
  | JNum int
  | JStr string
  | JArr "json list"
  | JObj "(string \<times> json) list"

text \<open>A JavaScript value that may also be \<^verbatim>\<open>undefined\<close> (\<open>None\<close>).\<close>

type_synonym jsval = "json option"

text \<open>A thrown value: an error object with its \<^verbatim>\<open>name\<close> and \<^verbatim>\<open>message\<close>.\<close>

datatype js_error = JsError (err_name: string) (err_message: string)

text \<open>\<^verbatim>\<open>new Error(msg)\<close>.\<close>

definition Error :: "string \<Rightarrow> js_error" where
  "Error msg = JsError ''Error'' msg"

text \<open>
  The errors the engine itself raises. Their wording is the engine's (V8's is used here);
  the code only ever reads their \<^verbatim>\<open>name\<close> and forwards their \<^verbatim>\<open>message\<close>.
\<close>

definition TypeError_in :: "string \<Rightarrow> string \<Rightarrow> js_error" where
  "TypeError_in k operand = JsError ''TypeError'' (''Cannot use 'in' operator to search for ''
      @ [CHR 0x27] @ k @ [CHR 0x27] @ '' in '' @ operand)"

definition TypeError_read :: "string \<Rightarrow> js_error" where
  "TypeError_read k = JsError ''TypeError'' (''Cannot read properties of null (reading ''
      @ [CHR 0x27] @ k @ [CHR 0x27] @ '')'')"

definition AbortError :: js_error where
  "AbortError = JsError ''AbortError'' ''Aborted''"

text \<open>
  The state of the promise an \<^verbatim>\<open>async\<close> function returns, once nothing more can happen:
  still pending (it never settles), rejected, or fulfilled.
\<close>

datatype 'a promise = Pending | Rejected js_error | Fulfilled 'a

subsection \<open>Truthiness and property access\<close>

fun truthy :: "json \<Rightarrow> bool" where
  "truthy JNull = False"
| "truthy (JBool b) = b"
| "truthy (JNum n) = (n \<noteq> 0)"
| "truthy (JStr s) = (s \<noteq> [])"
| "truthy (JArr xs) = True"
| "truthy (JObj kvs) = True"

fun truthy_val :: "jsval \<Rightarrow> bool" where
  "truthy_val None = False"
| "truthy_val (Some v) = truthy v"

text \<open>
  \<^verbatim>\<open>v.k\<close> for the property names the code reads (\<^verbatim>\<open>content\<close>, \<^verbatim>\<open>text\<close>, \<^verbatim>\<open>transcript\<close>,
  \<^verbatim>\<open>incident_id\<close>): reading a property of \<^verbatim>\<open>null\<close> throws, an object gives the property or
  \<^verbatim>\<open>undefined\<close>, and no string, number, boolean or array has a property of these names.
\<close>

fun js_get :: "json \<Rightarrow> string \<Rightarrow> js_error + jsval" where
  "js_get JNull k = Inl (TypeError_read k)"
| "js_get (JObj kvs) k = Inr (map_of kvs k)"
| "js_get v k = Inr None"

subsection \<open>Conversion to strings\<close>

definition digit_char :: "nat \<Rightarrow> char" where
  "digit_char n = ''0123456789abcdef'' ! n"

function show_nat :: "nat \<Rightarrow> string" where
  "show_nat n = (if n < 10 then [digit_char n] else show_nat (n div 10) @ [digit_char (n mod 10)])"
  by pat_completeness auto
termination
  by (relation "measure id") auto

declare show_nat.simps [simp del]

definition show_int :: "int \<Rightarrow> string" where
  "show_int i = (if i < 0 then CHR ''-'' # show_nat (nat (- i)) else show_nat (nat i))"

fun intercalate :: "'a list \<Rightarrow> 'a list list \<Rightarrow> 'a list" where
  "intercalate sep [] = []"
| "intercalate sep [x] = x"
| "intercalate sep (x # y # zs) = x @ sep @ intercalate sep (y # zs)"

text \<open>
  \<^verbatim>\<open>String(v)\<close>, the conversion a template literal and \<^verbatim>\<open>Array.prototype.join\<close> apply.
  An array prints as its elements joined by commas, \<^verbatim>\<open>null\<close> elements as nothing.
\<close>

fun js_toString :: "json \<Rightarrow> string" where
  "js_toString JNull = ''null''"
| "js_toString (JBool b) = (if b then ''true'' else ''false'')"
| "js_toString (JNum n) = show_int n"
| "js_toString (JStr s) = s"
| "js_toString (JArr xs) =
     intercalate '','' (map (\<lambda>x. if x = JNull then [] else js_toString x) xs)"
| "js_toString (JObj kvs) = ''[object Object]''"

text \<open>
  \<^verbatim>\<open>k in v\<close> for the names the code searches (\<^verbatim>\<open>text\<close>, \<^verbatim>\<open>content\<close>, \<^verbatim>\<open>transcript\<close>,
  \<^verbatim>\<open>channels\<close>): the operator throws when its right operand is not an object, and the
  message names the operand.
\<close>

fun js_in :: "string \<Rightarrow> json \<Rightarrow> js_error + bool" where
  "js_in k (JObj kvs) = Inr (map_of kvs k \<noteq> None)"
| "js_in k (JArr xs) = Inr False"
| "js_in k v = Inl (TypeError_in k (js_toString v))"

fun template_toString :: "jsval \<Rightarrow> string" where
  "template_toString None = ''undefined''"
| "template_toString (Some v) = js_toString v"

text \<open>\<^verbatim>\<open>xs.join(sep)\<close>: \<^verbatim>\<open>null\<close> and \<^verbatim>\<open>undefined\<close> elements print as nothing.\<close>

definition js_join :: "string \<Rightarrow> jsval list \<Rightarrow> string" where
  "js_join sep xs =
     intercalate sep (map (\<lambda>x. case x of None \<Rightarrow> [] | Some v \<Rightarrow> if v = JNull then [] else js_toString v) xs)"

subsection \<open>\<^verbatim>\<open>JSON.stringify\<close>\<close>

definition escape_char :: "char \<Rightarrow> string" where
  "escape_char c =
     (if c = CHR 0x22 then [CHR 0x5C, CHR 0x22]
      else if c = CHR 0x5C then [CHR 0x5C, CHR 0x5C]
      else if c = CHR 0x08 then [CHR 0x5C, CHR ''b'']
      else if c = CHR 0x0C then [CHR 0x5C, CHR ''f'']
      else if c = CHR 0x0A then [CHR 0x5C, CHR ''n'']
      else if c = CHR 0x0D then [CHR 0x5C, CHR ''r'']
      else if c = CHR 0x09 then [CHR 0x5C, CHR ''t'']
      else if (of_char c :: nat) < 32
        then [CHR 0x5C, CHR ''u'', CHR ''0'', CHR ''0'',
              digit_char (of_char c div 16), digit_char (of_char c mod 16)]
      else [c])"

definition JSON_quote :: "string \<Rightarrow> string" where
  "JSON_quote s = CHR 0x22 # concat (map escape_char s) @ [CHR 0x22]"

fun JSON_stringify :: "json \<Rightarrow> string" where
  "JSON_stringify JNull = ''null''"
| "JSON_stringify (JBool b) = (if b then ''true'' else ''false'')"
| "JSON_stringify (JNum n) = show_int n"
| "JSON_stringify (JStr s) = JSON_quote s"
| "JSON_stringify (JArr xs) = ''['' @ intercalate '','' (map JSON_stringify xs) @ '']''"
| "JSON_stringify (JObj kvs) =
     ''{'' @ intercalate '','' (map (\<lambda>p. JSON_quote (fst p) @ '':'' @ JSON_stringify (snd p)) kvs) @ ''}''"

section \<open>The platform: network, timers, console, local storage\<close>

text \<open>
  A received response: its status line and what reading the body gives, as text
  (\<^verbatim>\<open>res.text()\<close>) and as parsed JSON (\<^verbatim>\<open>res.json()\<close>); either read may reject.
\<close>

record response =
  status :: nat
  statusText :: string
  text_result :: "js_error + string"
  json_result :: "js_error + json"

text \<open>\<^verbatim>\<open>res.ok\<close>: the status is in the range 200 to 299.\<close>

definition ok :: "response \<Rightarrow> bool" where
  "ok r = (200 \<le> status r \<and> status r \<le> 299)"

text \<open>
  What the upstream does with one request when left alone: answer after so many
  milliseconds with a response whose body is there to be read; send the status line and
  headers of a response after so many milliseconds and never complete its body; fail
  after so many milliseconds; or never answer.
\<close>

datatype upstream = Responds nat response | Stalls nat response | Fails nat js_error | Silent

text \<open>
  What \<^verbatim>\<open>fetch\<close> resolves to: the response, and whether its body will ever be complete.
\<close>

datatype arrival = Complete | Stalled

type_synonym received = "response \<times> arrival"

text \<open>
  \<^verbatim>\<open>res.text()\<close> and \<^verbatim>\<open>res.json()\<close>: the read settles as the response says once the body is
  complete, and stays pending on a body that never completes.
\<close>

definition res_text :: "received \<Rightarrow> string promise" where
  "res_text res =
     (case snd res of
        Stalled \<Rightarrow> Pending
      | Complete \<Rightarrow> (case text_result (fst res) of Inl e \<Rightarrow> Rejected e | Inr t \<Rightarrow> Fulfilled t))"

definition res_json :: "received \<Rightarrow> json promise" where
  "res_json res =
     (case snd res of
        Stalled \<Rightarrow> Pending
      | Complete \<Rightarrow> (case json_result (fst res) of Inl e \<Rightarrow> Rejected e | Inr j \<Rightarrow> Fulfilled j))"

datatype form_value = FormFile string string string | FormBlob string | FormText string

datatype req_body = JsonBody string | FormBody "(string \<times> form_value) list"

text \<open>
  A request as given to \<^verbatim>\<open>fetch\<close>. \<open>abort_after\<close> is the delay of the timer whose callback
  aborts the request's \<^verbatim>\<open>AbortController\<close>; \<open>None\<close> when the request carries no signal.
\<close>

record request =
  url :: string
  http_method :: string
  headers :: "(string \<times> string) list"
  body :: req_body
  abort_after :: "int option"

datatype level = Log | Debug | Warn | Err

datatype logarg = LStr string | LErr js_error | LJson json

text \<open>
  The world outside the functions: what the network will do with the next requests,
  the requests issued so far, those among them that were aborted, the console, and the
  key-value store with the faults its next operations will meet.
\<close>

record world =
  script :: "upstream list"
  requests :: "request list"
  aborted :: "request list"
  console :: "(level \<times> logarg list) list"
  items :: "string \<rightharpoonup> string"
  faults :: "js_error option list"

definition console_out :: "level \<Rightarrow> logarg list \<Rightarrow> world \<Rightarrow> world" where
  "console_out l args w = w\<lparr>console := console w @ [(l, args)]\<rparr>"

text \<open>
  The delay \<^verbatim>\<open>setTimeout\<close> applies: one that is negative or does not fit a signed 32-bit
  integer fires at once.
\<close>

definition timer_delay :: "int \<Rightarrow> int" where
  "timer_delay ms = (if ms < 0 \<or> 2147483647 < ms then 0 else ms)"

text \<open>
  Whether \<^verbatim>\<open>fetch\<close> takes longer to settle than a timer of \<open>ms\<close> milliseconds: the response
  (its status line and headers) or the failure comes strictly later, or never. When both
  fall on the same instant the response is taken.
\<close>

definition exceeds :: "upstream \<Rightarrow> int \<Rightarrow> bool" where
  "exceeds u ms =
     (case u of
        Responds t r \<Rightarrow> timer_delay ms < int t
      | Stalls t r \<Rightarrow> timer_delay ms < int t
      | Fails t e \<Rightarrow> timer_delay ms < int t
      | Silent \<Rightarrow> True)"

text \<open>
  Whether the whole exchange, the body included, is still not over after \<open>ms\<close>
  milliseconds.
\<close>

definition outlasts :: "upstream \<Rightarrow> int \<Rightarrow> bool" where
  "outlasts u ms =
     (case u of
        Responds t r \<Rightarrow> timer_delay ms < int t
      | Stalls t r \<Rightarrow> True
      | Fails t e \<Rightarrow> timer_delay ms < int t
      | Silent \<Rightarrow> True)"

text \<open>Whether the abort timer of a request, if it has one, fires before the upstream settles.\<close>

definition timer_first :: "int option \<Rightarrow> upstream \<Rightarrow> bool" where
  "timer_first d u = (case d of None \<Rightarrow> False | Some ms \<Rightarrow> exceeds u ms)"

text \<open>What the network does with the next request; with nothing scripted it is silent.\<close>

definition next_upstream :: "world \<Rightarrow> upstream" where
  "next_upstream w = (case script w of [] \<Rightarrow> Silent | x # xs \<Rightarrow> x)"

text \<open>
  \<^verbatim>\<open>fetch(url, init)\<close>: the request goes out; if its timer fires first the request is aborted
  and the promise rejects with an \<^verbatim>\<open>AbortError\<close>; otherwise the promise settles as the
  upstream decides, or stays pending when the upstream never answers. The promise
  fulfils when the status line and headers are in.
\<close>

definition fetch :: "request \<Rightarrow> world \<Rightarrow> received promise \<times> world" where
  "fetch req w =
     (let u = next_upstream w;
          w1 = w\<lparr>script := tl (script w), requests := requests w @ [req]\<rparr>
      in if timer_first (abort_after req) u
         then (Rejected AbortError, w1\<lparr>aborted := aborted w1 @ [req]\<rparr>)
         else (case u of
                 Responds t r \<Rightarrow> (Fulfilled (r, Complete), w1)
               | Stalls t r \<Rightarrow> (Fulfilled (r, Stalled), w1)
               | Fails t e \<Rightarrow> (Rejected e, w1)
               | Silent \<Rightarrow> (Pending, w1)))"

text \<open>\<^verbatim>\<open>AsyncStorage.getItem\<close> and \<^verbatim>\<open>setItem\<close>; an operation meets the next scripted fault.\<close>

definition next_fault :: "world \<Rightarrow> js_error option \<times> world" where
  "next_fault w = (case faults w of [] \<Rightarrow> (None, w) | f # fs \<Rightarrow> (f, w\<lparr>faults := fs\<rparr>))"

definition getItem :: "string \<Rightarrow> world \<Rightarrow> (js_error + string option) \<times> world" where
  "getItem k w =
     (case next_fault w of
        (Some e, w1) \<Rightarrow> (Inl e, w1)
      | (None, w1) \<Rightarrow> (Inr (items w1 k), w1))"

definition setItem :: "string \<Rightarrow> string \<Rightarrow> world \<Rightarrow> (js_error + unit) \<times> world" where
  "setItem k v w =
     (case next_fault w of
        (Some e, w1) \<Rightarrow> (Inl e, w1)
      | (None, w1) \<Rightarrow> (Inr (), w1\<lparr>items := (items w1)(k \<mapsto> v)\<rparr>))"

section \<open>transcriptService: the incident relay client\<close>

definition BASE_URL :: string where
  "BASE_URL = ''https://vigilis.onrender.com''"

definition json_headers :: "(string \<times> string) list" where
  "json_headers = [(''Content-Type'', ''application/json''), (''Accept'', ''application/json'')]"

text \<open>
  \<^verbatim>\<open>sendTranscript(transcript, sessionId, timeoutMs, caller)\<close>. The \<^verbatim>\<open>catch\<close> clause sees what
  the awaited \<^verbatim>\<open>fetch\<close> and \<^verbatim>\<open>res.text()\<close> throw; \<^verbatim>\<open>return res.json()\<close> is not awaited, so
  the call settles as that read does. The timer is cleared as soon as \<^verbatim>\<open>fetch\<close> has
  settled: the reads of the body run with no timer.
\<close>

definition sendTranscript_catch :: "js_error \<Rightarrow> js_error" where
  "sendTranscript_catch err =
     (if err_name err = ''AbortError'' then Error ''Request timed out sending transcript'' else err)"

definition sendTranscript ::
    "string \<Rightarrow> string \<Rightarrow> int \<Rightarrow> string \<Rightarrow> world \<Rightarrow> json promise \<times> world" where
  "sendTranscript transcript sessionId timeoutMs caller w =
     (let payload = JObj [(''incident_id'', JStr sessionId),
                          (''transcript'', JStr transcript),
                          (''caller'', JStr caller)];
          (settled, w1) = fetch \<lparr>url = BASE_URL @ ''/incident/update_transcript'',
                             http_method = ''POST'',
                             headers = json_headers,
                             body = JsonBody (JSON_stringify payload),
                             abort_after = Some timeoutMs\<rparr> w
      in case settled of
           Pending \<Rightarrow> (Pending, w1)
         | Rejected err \<Rightarrow> (Rejected (sendTranscript_catch err), w1)
         | Fulfilled res \<Rightarrow>
             if \<not> ok (fst res) then
               (case res_text res of
                  Pending \<Rightarrow> (Pending, w1)
                | Rejected e \<Rightarrow> (Rejected (sendTranscript_catch e), w1)
                | Fulfilled errorBody \<Rightarrow>
                    (Rejected (sendTranscript_catch
                       (Error (''Failed to send transcript: '' @ show_nat (status (fst res))
                               @ '' '' @ errorBody))), w1))
             else (res_json res, w1))"

text \<open>What \<^verbatim>\<open>notifyCivilianCallStarted\<close> resolves to: the response, or the fallback marker.\<close>

datatype ack = AckResponse response | AckFallback

text \<open>
  The body of \<^verbatim>\<open>if (!res.ok)\<close> in \<^verbatim>\<open>notifyCivilianCallStarted\<close>, once \<^verbatim>\<open>errorBody\<close> is
  known (it is empty when reading the body failed).
\<close>

definition notify_failed :: "string \<Rightarrow> response \<Rightarrow> string \<Rightarrow> world \<Rightarrow> ack promise \<times> world" where
  "notify_failed sessionId r errorBody w1 =
     (let w2 = console_out Warn
                 [LStr (''notifyCivilianCallStarted returned '' @ show_nat (status r)
                        @ '': '' @ errorBody)] w1
      in if status r = 404 then
           (let w3 = console_out Log
                       [LStr ''Falling back to sendTranscript to initialize incident''] w2;
                (fb, w4) = sendTranscript [] sessionId 5000 ''civilian'' w3
            in case fb of
                 Pending \<Rightarrow> (Pending, w4)
               | Fulfilled j \<Rightarrow> (Fulfilled AckFallback, w4)
               | Rejected fe \<Rightarrow>
                   (Rejected (Error
                      (''Failed to notify call started (404) and fallback failed: ''
                       @ err_message fe)), w4))
         else
           (Rejected (Error (''Failed to notify call started: '' @ show_nat (status r)
                             @ '' '' @ errorBody)), w2))"

text \<open>
  \<^verbatim>\<open>notifyCivilianCallStarted(sessionId)\<close>; \<open>now\<close> is what \<^verbatim>\<open>new Date().toISOString()\<close> gives.
  Its \<^verbatim>\<open>fetch\<close> carries no signal.
\<close>

definition notifyCivilianCallStarted :: "string \<Rightarrow> string \<Rightarrow> world \<Rightarrow> ack promise \<times> world" where
  "notifyCivilianCallStarted sessionId now w =
     (let w0 = console_out Log [LStr ''call started''] w;
          payload = JObj [(''incident_id'', JStr sessionId),
                          (''caller'', JStr ''civilian''),
                          (''timestamp'', JStr now)];
          (settled, w1) = fetch \<lparr>url = BASE_URL @ ''/incident/callStarted'',
                             http_method = ''POST'',
                             headers = json_headers,
                             body = JsonBody (JSON_stringify payload),
                             abort_after = None\<rparr> w0
      in case settled of
           Pending \<Rightarrow> (Pending, w1)
         | Rejected err \<Rightarrow> (Rejected err, w1)
         | Fulfilled res \<Rightarrow>
             if \<not> ok (fst res) then
               (case res_text res of
                  Pending \<Rightarrow> (Pending, w1)
                | Rejected e \<Rightarrow> notify_failed sessionId (fst res) [] w1
                | Fulfilled errorBody \<Rightarrow> notify_failed sessionId (fst res) errorBody w1)
             else (Fulfilled (AckResponse (fst res)), w1))"

section \<open>audioService: the transcription client\<close>

text \<open>
  The module's configuration, read from the environment: the API key and the endpoint
  (\<open>None\<close> when the variable is not set).
\<close>

record config =
  ELEVENLABS_API_KEY :: "string option"
  STT_URL_env :: "string option"

text \<open>\<^verbatim>\<open>a || b\<close> on an optional string with a default: unset and empty both give the default.\<close>

definition or_default :: "string option \<Rightarrow> string \<Rightarrow> string" where
  "or_default v d = (case v of None \<Rightarrow> d | Some s \<Rightarrow> if s = [] then d else s)"

definition ELEVENLABS_STT_URL :: "config \<Rightarrow> string" where
  "ELEVENLABS_STT_URL cfg = or_default (STT_URL_env cfg) ''https://api.elevenlabs.io/v1/speech-to-text''"

text \<open>
  The audio handed in: a React Native file \<^verbatim>\<open>{uri, name?, type?}\<close> or a browser blob
  (its bytes).
\<close>

datatype audio = RNFile string "string option" "string option" | Blob string

definition build_form :: "audio \<Rightarrow> (string \<times> form_value) list" where
  "build_form fileBlob =
     (case fileBlob of
        RNFile uri name type \<Rightarrow>
          [(''file'', FormFile uri (or_default name ''recording.m4a'') (or_default type ''audio/mp4''))]
      | Blob b \<Rightarrow> [(''file'', FormBlob b)])
     @ [(''model_id'', FormText ''scribe_v1'')]"

text \<open>
  One channel's text, \<^verbatim>\<open>c.content || c.text || c.transcript\<close>: the first truthy operand,
  else the last one. Reading a property of a \<^verbatim>\<open>null\<close> channel throws.
\<close>

definition channel_text :: "json \<Rightarrow> js_error + jsval" where
  "channel_text c =
     (case js_get c ''content'' of
        Inl e \<Rightarrow> Inl e
      | Inr a \<Rightarrow>
          if truthy_val a then Inr a
          else (case js_get c ''text'' of
                  Inl e \<Rightarrow> Inl e
                | Inr b \<Rightarrow> if truthy_val b then Inr b else js_get c ''transcript''))"

text \<open>\<^verbatim>\<open>channels.map(...)\<close>: the first callback that throws ends the whole call.\<close>

fun map_channels :: "json list \<Rightarrow> js_error + jsval list" where
  "map_channels [] = Inr []"
| "map_channels (c # cs) =
     (case channel_text c of
        Inl e \<Rightarrow> Inl e
      | Inr t \<Rightarrow> (case map_channels cs of Inl e \<Rightarrow> Inl e | Inr ts \<Rightarrow> Inr (t # ts)))"

definition is_string :: "jsval \<Rightarrow> bool" where
  "is_string v = (case v of Some (JStr s) \<Rightarrow> True | _ \<Rightarrow> False)"

definition the_string :: "jsval \<Rightarrow> string" where
  "the_string v = (case v of Some (JStr s) \<Rightarrow> s | _ \<Rightarrow> [])"

definition is_array :: "jsval \<Rightarrow> bool" where
  "is_array v = (case v of Some (JArr xs) \<Rightarrow> True | _ \<Rightarrow> False)"

definition the_array :: "jsval \<Rightarrow> json list" where
  "the_array v = (case v of Some (JArr xs) \<Rightarrow> xs | _ \<Rightarrow> [])"

definition unexpected_response :: "json \<Rightarrow> string" where
  "unexpected_response data = ''Unexpected transcription response: '' @ JSON_stringify data"

text \<open>
  \<^verbatim>\<open>'k' in data && typeof data.k === 'string'\<close>: whether the test throws, and else whether it
  holds. After \<^verbatim>\<open>in\<close> has succeeded \<open>data\<close> is an object or an array and the read is safe.
\<close>

definition string_field :: "string \<Rightarrow> json \<Rightarrow> js_error + string option" where
  "string_field k data =
     (case js_in k data of
        Inl e \<Rightarrow> Inl e
      | Inr False \<Rightarrow> Inr None
      | Inr True \<Rightarrow>
          (case js_get data k of
             Inl e \<Rightarrow> Inl e
           | Inr v \<Rightarrow> Inr (if is_string v then Some (the_string v) else None)))"

text \<open>The channels step: the joined texts, or \<open>None\<close> when the step does not return.\<close>

definition channels_step :: "json \<Rightarrow> js_error + string option" where
  "channels_step data =
     (case js_in ''channels'' data of
        Inl e \<Rightarrow> Inl e
      | Inr False \<Rightarrow> Inr None
      | Inr True \<Rightarrow>
          (case js_get data ''channels'' of
             Inl e \<Rightarrow> Inl e
           | Inr v \<Rightarrow>
               if is_array v then
                 (case map_channels (the_array v) of
                    Inl e \<Rightarrow> Inl e
                  | Inr ts \<Rightarrow>
                      (let texts = filter truthy_val ts
                       in Inr (if texts \<noteq> [] then Some (js_join '' '' texts) else None)))
               else Inr None))"

text \<open>
  The extraction of \<^verbatim>\<open>transcribeAudio\<close>, from the result of
  \<^verbatim>\<open>await res.json().catch(() => null)\<close> on: \<open>Inl\<close> is an exception thrown inside the
  \<^verbatim>\<open>try\<close> block.
\<close>

definition extract_text :: "json \<Rightarrow> js_error + string" where
  "extract_text data =
     (if \<not> truthy data then Inr ''No transcription returned from ElevenLabs.''
      else case data of
        JStr s \<Rightarrow> Inr s
      | _ \<Rightarrow>
        (case string_field ''text'' data of
           Inl e \<Rightarrow> Inl e
         | Inr (Some s) \<Rightarrow> Inr s
         | Inr None \<Rightarrow>
        (case string_field ''content'' data of
           Inl e \<Rightarrow> Inl e
         | Inr (Some s) \<Rightarrow> Inr s
         | Inr None \<Rightarrow>
        (case string_field ''transcript'' data of
           Inl e \<Rightarrow> Inl e
         | Inr (Some s) \<Rightarrow> Inr s
         | Inr None \<Rightarrow>
        (case channels_step data of
           Inl e \<Rightarrow> Inl e
         | Inr (Some s) \<Rightarrow> Inr s
         | Inr None \<Rightarrow> Inr (unexpected_response data))))))"

definition transcribeAudio_catch :: "js_error \<Rightarrow> js_error" where
  "transcribeAudio_catch err =
     (if err_name err = ''AbortError'' then Error ''Transcription request timed out'' else err)"

text \<open>\<^verbatim>\<open>transcribeAudio(fileBlob, timeoutMs)\<close>.\<close>

text \<open>The error of \<^verbatim>\<open>if (!res.ok)\<close>, thrown inside the \<^verbatim>\<open>try\<close> block.\<close>

definition request_failed :: "response \<Rightarrow> string \<Rightarrow> string promise" where
  "request_failed r text =
     Rejected (transcribeAudio_catch
       (Error (''ElevenLabs STT request failed: '' @ show_nat (status r) @ '' ''
               @ statusText r @ '' '' @ text)))"

text \<open>
  \<^verbatim>\<open>transcribeAudio\<close> from the form on. Here too the timer is cleared once \<^verbatim>\<open>fetch\<close> has
  settled and the body is read with no timer.
\<close>

definition transcribeAudio_request ::
    "config \<Rightarrow> string \<Rightarrow> audio \<Rightarrow> int \<Rightarrow> world \<Rightarrow> string promise \<times> world" where
  "transcribeAudio_request cfg key fileBlob timeoutMs w =
     (let form = build_form fileBlob;
          w0 = console_out Debug
                 [LStr ''Transcription request prepared:'',
                  LJson (JObj [(''url'', JStr (ELEVENLABS_STT_URL cfg)),
                               (''model_id'', JStr ''scribe_v1'')])] w;
          (settled, w1) = fetch \<lparr>url = ELEVENLABS_STT_URL cfg,
                             http_method = ''POST'',
                             headers = [(''xi-api-key'', key)],
                             body = FormBody form,
                             abort_after = Some timeoutMs\<rparr> w0
      in case settled of
           Pending \<Rightarrow> (Pending, w1)
         | Rejected err \<Rightarrow> (Rejected (transcribeAudio_catch err), w1)
         | Fulfilled res \<Rightarrow>
             if \<not> ok (fst res) then
               (case res_text res of
                  Pending \<Rightarrow> (Pending, w1)
                | Rejected e \<Rightarrow> (request_failed (fst res) [], w1)
                | Fulfilled text \<Rightarrow> (request_failed (fst res) text, w1))
             else
               (case res_json res of
                  Pending \<Rightarrow> (Pending, w1)
                | Rejected e \<Rightarrow> (Fulfilled ''No transcription returned from ElevenLabs.'', w1)
                | Fulfilled data \<Rightarrow>
                    (case extract_text data of
                       Inl e \<Rightarrow> (Rejected (transcribeAudio_catch e), w1)
                     | Inr s \<Rightarrow> (Fulfilled s, w1))))"

definition key_missing :: "string promise" where
  "key_missing = Rejected (Error ''ElevenLabs API key not configured (EXPO_PUBLIC_ELEVENLABS_API_KEY)'')"

definition transcribeAudio :: "config \<Rightarrow> audio \<Rightarrow> int \<Rightarrow> world \<Rightarrow> string promise \<times> world" where
  "transcribeAudio cfg fileBlob timeoutMs w =
     (case ELEVENLABS_API_KEY cfg of
        None \<Rightarrow> (key_missing, w)
      | Some key \<Rightarrow>
          if key = [] then (key_missing, w)
          else transcribeAudio_request cfg key fileBlob timeoutMs w)"

section \<open>The screens\<close>

text \<open>The state both screens hold in their hooks.\<close>

record screen =
  transcript :: string
  isRecording :: bool
  isLoading :: bool
  sendLoading :: bool
  sendError :: "string option"
  sendSuccess :: "string option"
  deviceId :: "string option"

definition DEVICE_ID_KEY :: string where
  "DEVICE_ID_KEY = ''@vigilis_device_id''"

definition initial_transcript :: string where
  "initial_transcript = ''Tap 'Start Recording' to begin...''"

definition recording_marker :: string where
  "recording_marker = ''Recording...''"

definition initial_screen :: screen where
  "initial_screen = \<lparr>transcript = initial_transcript, isRecording = False, isLoading = False,
      sendLoading = False, sendError = None, sendSuccess = None, deviceId = None\<rparr>"

text \<open>
  \<^verbatim>\<open>initDeviceId\<close>, the same in both screens; \<open>fresh\<close> is what \<^verbatim>\<open>uuid.v4().toString()\<close> gives
  when it is called.
\<close>

definition initDeviceId_failed :: "js_error \<Rightarrow> screen \<Rightarrow> world \<Rightarrow> screen \<times> world" where
  "initDeviceId_failed err s w =
     (s\<lparr>sendError := Some ''Failed to initialize device ID''\<rparr>,
      console_out Err [LStr ''Error initializing device ID:'', LErr err] w)"

definition initDeviceId_create :: "string \<Rightarrow> screen \<Rightarrow> world \<Rightarrow> screen \<times> world" where
  "initDeviceId_create fresh s w =
     (case setItem DEVICE_ID_KEY fresh w of
        (Inl e, w1) \<Rightarrow> initDeviceId_failed e s w1
      | (Inr u, w1) \<Rightarrow> (s\<lparr>deviceId := Some fresh\<rparr>, w1))"

definition initDeviceId :: "string \<Rightarrow> screen \<Rightarrow> world \<Rightarrow> screen \<times> world" where
  "initDeviceId fresh s w =
     (case getItem DEVICE_ID_KEY w of
        (Inl e, w1) \<Rightarrow> initDeviceId_failed e s w1
      | (Inr None, w1) \<Rightarrow> initDeviceId_create fresh s w1
      | (Inr (Some storedId), w1) \<Rightarrow>
          if storedId = [] then initDeviceId_create fresh s w1
          else (s\<lparr>deviceId := Some storedId\<rparr>, w1))"

text \<open>
  \<^verbatim>\<open>handleSend\<close>; the screens differ in the caller tag only. \<open>handleSend_start\<close> is the state
  while the request is in flight, \<open>handleSend_request\<close> the handler from there on.
\<close>

definition handleSend_start :: "screen \<Rightarrow> screen" where
  "handleSend_start s = s\<lparr>sendLoading := True, sendError := None, sendSuccess := None\<rparr>"

definition handleSend_catch :: "js_error \<Rightarrow> screen \<Rightarrow> world \<Rightarrow> screen \<times> world" where
  "handleSend_catch err s w =
     (s\<lparr>sendError := Some (err_message err), sendLoading := False\<rparr>,
      console_out Err [LStr ''Failed to send transcript:'', LErr err] w)"

definition handleSend_request :: "string \<Rightarrow> string \<Rightarrow> screen \<Rightarrow> world \<Rightarrow> screen \<times> world" where
  "handleSend_request caller dev s w =
     (let s1 = handleSend_start s;
          (r, w1) = sendTranscript (transcript s) dev 15000 caller w
      in case r of
           Pending \<Rightarrow> (s1, w1)
         | Rejected err \<Rightarrow> handleSend_catch err s1 w1
         | Fulfilled resp \<Rightarrow>
             (case js_get resp ''incident_id'' of
                Inl e \<Rightarrow> handleSend_catch e s1 w1
              | Inr v \<Rightarrow>
                  (s1\<lparr>sendSuccess := Some (''Transcript sent successfully to incident ''
                                            @ template_toString v),
                      sendLoading := False\<rparr>,
                   console_out Log [LStr ''sendTranscript response:'', LJson resp] w1)))"

definition no_device :: "screen \<Rightarrow> screen" where
  "no_device s = s\<lparr>sendError := Some ''Device ID not initialized''\<rparr>"

definition handleSend :: "string \<Rightarrow> screen \<Rightarrow> world \<Rightarrow> screen \<times> world" where
  "handleSend caller s w =
     (if transcript s = [] \<or> prefix ''Recording'' (transcript s) \<or> prefix ''Tap'' (transcript s)
      then (s\<lparr>sendError := Some ''No transcript to send''\<rparr>, w)
      else case deviceId s of
             None \<Rightarrow> (no_device s, w)
           | Some dev \<Rightarrow>
               if dev = [] then (no_device s, w)
               else handleSend_request caller dev s w)"

text \<open>What the screen shows of the send state: the button and the two banners.\<close>

definition send_button_disabled :: "screen \<Rightarrow> bool" where
  "send_button_disabled s = (sendLoading s \<or> isLoading s)"

definition banner :: "string option \<Rightarrow> string option" where
  "banner m = (case m of None \<Rightarrow> None | Some t \<Rightarrow> if t = [] then None else Some t)"

definition error_banner :: "screen \<Rightarrow> string option" where
  "error_banner s = banner (sendError s)"

definition success_banner :: "screen \<Rightarrow> string option" where
  "success_banner s = banner (sendSuccess s)"

definition handleSend_civilian :: "screen \<Rightarrow> world \<Rightarrow> screen \<times> world" where
  "handleSend_civilian = handleSend ''civilian''"

definition handleSend_police :: "screen \<Rightarrow> world \<Rightarrow> screen \<times> world" where
  "handleSend_police = handleSend ''police officer''"

section \<open>Notions the claims are stated in\<close>

text \<open>
  The upstream's answer to the next request when it arrives within a timer of \<open>ms\<close>
  milliseconds, and \<open>None\<close> when the upstream fails, is late or stays silent.
\<close>

definition answer :: "world \<Rightarrow> int \<Rightarrow> response option" where
  "answer w ms =
     (case script w of
        Responds t r # rest \<Rightarrow> if exceeds (Responds t r) ms then None else Some r
      | _ \<Rightarrow> None)"

text \<open>
  The store of an installation as far as the device key goes: the only write to the key
  in the source stores \<^verbatim>\<open>uuid.v4().toString()\<close>, which is never empty, so the key is absent
  or holds a non-empty identifier.
\<close>

definition uuid_store :: "world \<Rightarrow> bool" where
  "uuid_store w = (items w DEVICE_ID_KEY \<noteq> Some [])"

text \<open>
  The text a channel entry contributes, for an entry that is not \<^verbatim>\<open>null\<close>, and the
  contributions that survive \<^verbatim>\<open>filter(Boolean)\<close>.
\<close>

definition channel_pick :: "json \<Rightarrow> jsval" where
  "channel_pick c = (case channel_text c of Inl e \<Rightarrow> None | Inr v \<Rightarrow> v)"

definition channel_texts :: "json list \<Rightarrow> jsval list" where
  "channel_texts cs = filter truthy_val (map channel_pick cs)"

text \<open>
  A channel entry whose \<^verbatim>\<open>content\<close>, \<^verbatim>\<open>text\<close> and \<^verbatim>\<open>transcript\<close> are each absent or the
  empty string.
\<close>

definition blank_field :: "json \<Rightarrow> string \<Rightarrow> bool" where
  "blank_field c k = (js_get c k = Inr None \<or> js_get c k = Inr (Some (JStr [])))"

definition blank_channel :: "json \<Rightarrow> bool" where
  "blank_channel c =
     (blank_field c ''content'' \<and> blank_field c ''text'' \<and> blank_field c ''transcript'')"

text \<open>
  The extraction order as a plain function of the parsed body, with no exception in it:
  the fixed text for a falsy body; the body itself if it is a string; the
  \<^verbatim>\<open>text\<close>, \<^verbatim>\<open>content\<close> or \<^verbatim>\<open>transcript\<close> field, the first that is a string; the surviving
  channel texts joined by one space if \<^verbatim>\<open>channels\<close> is an array and any survive; else the
  diagnostic text with the serialized body.
\<close>

definition extraction_policy :: "json \<Rightarrow> string" where
  "extraction_policy data =
     (if \<not> truthy data then ''No transcription returned from ElevenLabs.''
      else case data of
        JStr s \<Rightarrow> s
      | JObj kvs \<Rightarrow>
          if is_string (map_of kvs ''text'') then the_string (map_of kvs ''text'')
          else if is_string (map_of kvs ''content'') then the_string (map_of kvs ''content'')
          else if is_string (map_of kvs ''transcript'') then the_string (map_of kvs ''transcript'')
          else if is_array (map_of kvs ''channels'')
                  \<and> channel_texts (the_array (map_of kvs ''channels'')) \<noteq> []
            then js_join '' '' (channel_texts (the_array (map_of kvs ''channels'')))
          else unexpected_response data
      | _ \<Rightarrow> unexpected_response data)"

text \<open>
  A reader for the characters \<open>JSON_quote\<close> writes: it takes one character, escaped or
  plain, off the front of a string literal's body and stops at the closing quote.
\<close>

definition hex_value :: "char \<Rightarrow> nat" where
  "hex_value c =
     (case map_of [(CHR ''0'', 0), (CHR ''1'', 1), (CHR ''2'', 2), (CHR ''3'', 3), (CHR ''4'', 4),
                   (CHR ''5'', 5), (CHR ''6'', 6), (CHR ''7'', 7), (CHR ''8'', 8), (CHR ''9'', 9),
                   (CHR ''a'', 10), (CHR ''b'', 11), (CHR ''c'', 12), (CHR ''d'', 13),
                   (CHR ''e'', 14), (CHR ''f'', 15)] c of
        None \<Rightarrow> 0 | Some n \<Rightarrow> n)"

fun read_char :: "string \<Rightarrow> (char \<times> string) option" where
  "read_char [] = None"
| "read_char (c # r) =
     (if c = CHR 0x22 then None
      else if c \<noteq> CHR 0x5C then Some (c, r)
      else (case r of
              [] \<Rightarrow> None
            | e # r1 \<Rightarrow>
                if e = CHR 0x22 then Some (CHR 0x22, r1)
                else if e = CHR 0x5C then Some (CHR 0x5C, r1)
                else if e = CHR ''b'' then Some (CHR 0x08, r1)
                else if e = CHR ''f'' then Some (CHR 0x0C, r1)
                else if e = CHR ''n'' then Some (CHR 0x0A, r1)
                else if e = CHR ''r'' then Some (CHR 0x0D, r1)
                else if e = CHR ''t'' then Some (CHR 0x09, r1)
                else if e = CHR ''u'' then
                  (case r1 of
                     a # b # h # l # r2 \<Rightarrow> Some (char_of (16 * hex_value h + hex_value l), r2)
                   | _ \<Rightarrow> None)
                else None))"

section \<open>Concrete inputs\<close>

text \<open>A world in which nothing has happened yet and nothing is scripted.\<close>

definition quiet_world :: world where
  "quiet_world = \<lparr>script = [], requests = [], aborted = [], console = [],
                   items = Map.empty, faults = []\<rparr>"

text \<open>A response whose body is plain text, and one whose body is a JSON value.\<close>

definition text_response :: "nat \<Rightarrow> string \<Rightarrow> response" where
  "text_response st b = \<lparr>status = st, statusText = [], text_result = Inr b,
                          json_result = Inl (JsError ''SyntaxError'' ''Unexpected token'')\<rparr>"

definition json_response :: "json \<Rightarrow> response" where
  "json_response j = \<lparr>status = 200, statusText = ''OK'', text_result = Inr (JSON_stringify j),
                       json_result = Inr j\<rparr>"

definition configured :: config where
  "configured = \<lparr>ELEVENLABS_API_KEY = Some ''xi-key'', STT_URL_env = None\<rparr>"

definition recording_file :: audio where
  "recording_file = RNFile ''file:///cache/rec.m4a'' (Some ''recording.m4a'') (Some ''audio/mp4'')"

definition answering :: "json \<Rightarrow> world" where
  "answering j = quiet_world\<lparr>script := [Responds 800 (json_response j)]\<rparr>"

definition ex_text :: json where
  "ex_text = JObj [(''text'', JStr ''hello'')]"

definition ex_channels :: json where
  "ex_channels =
     JObj [(''channels'', JArr [JObj [(''content'', JStr ''a'')], JObj [(''text'', JStr ''b'')]])]"

definition uuid_a :: string where
  "uuid_a = ''9b1deb4d-3b7d-4bad-9bdd-2b0d7b3dcb6d''"

definition uuid_b :: string where
  "uuid_b = ''1b9d6bcd-bbfd-4b2d-9b5d-ab8dfbbd4bed''"

text \<open>A world whose upstream sends the headers of a response and never its body.\<close>

definition stalled_world :: world where
  "stalled_world = quiet_world\<lparr>script := [Stalls 100 (json_response JNull)]\<rparr>"

text \<open>A success response whose \<^verbatim>\<open>channels\<close> array holds a \<^verbatim>\<open>null\<close> entry.\<close>

definition ex_null_channel :: json where
  "ex_null_channel = JObj [(''channels'', JArr [JNull])]"

text \<open>A screen with a transcript to send and its device identity resolved.\<close>

definition ready_screen :: screen where
  "ready_screen = initial_screen\<lparr>transcript := ''There is a fire at 5th and Main'',
                                 deviceId := Some uuid_a\<rparr>"

section \<open>Facts about the platform model\<close>

lemma show_nat_small: "n < 10 \<Longrightarrow> show_nat n = [digit_char n]"
  by (simp add: show_nat.simps)

lemma fetch_aborts:
  "exceeds (next_upstream w) ms \<Longrightarrow> abort_after req = Some ms \<Longrightarrow>
   fetch req w = (Rejected AbortError,
      w\<lparr>script := tl (script w), requests := requests w @ [req], aborted := aborted w @ [req]\<rparr>)"
  by (simp add: fetch_def timer_first_def Let_def)

lemma fetch_responds:
  "script w = Responds t r # rest \<Longrightarrow> \<not> timer_first (abort_after req) (Responds t r) \<Longrightarrow>
   fetch req w = (Fulfilled (r, Complete), w\<lparr>script := rest, requests := requests w @ [req]\<rparr>)"
  by (simp add: fetch_def next_upstream_def Let_def)

section \<open>The transcription client without an API key\<close>

text \<open>
  Claim C10. Whatever the audio and the timeout, when the speech-to-text API key is not
  configured (the variable is unset or empty) \<open>transcribeAudio\<close> rejects with the
  configuration error and leaves the world as it was: no form has been announced on the
  console and no request has gone out.
\<close>

theorem transcribeAudio_key_not_configured:
  assumes "ELEVENLABS_API_KEY cfg = None \<or> ELEVENLABS_API_KEY cfg = Some []"
  shows "transcribeAudio cfg fileBlob timeoutMs w =
           (Rejected (Error ''ElevenLabs API key not configured (EXPO_PUBLIC_ELEVENLABS_API_KEY)''), w)"
  using assms by (auto simp: transcribeAudio_def key_missing_def)

theorem transcribeAudio_key_not_configured_witness:
  "transcribeAudio \<lparr>ELEVENLABS_API_KEY = None, STT_URL_env = None\<rparr> recording_file 60000 quiet_world
   = (Rejected (Error ''ElevenLabs API key not configured (EXPO_PUBLIC_ELEVENLABS_API_KEY)''),
      quiet_world)"
  using transcribeAudio_key_not_configured
          [of "\<lparr>ELEVENLABS_API_KEY = None, STT_URL_env = None\<rparr>" recording_file 60000 quiet_world]
  by simp

section \<open>Timeouts\<close>

text \<open>
  Claim C4, as amended. When \<^verbatim>\<open>fetch\<close> would settle only after the configured timeout, or
  never (no response and no failure has arrived by then), \<open>sendTranscript\<close> rejects with
  its timeout error and the one request it issued, which carried the timer, is aborted;
  the same holds for \<open>transcribeAudio\<close> once it has a key and so issues a request.
\<close>

theorem timeout_aborts_request:
  assumes "exceeds (next_upstream w) timeoutMs"
  shows "fst (sendTranscript txt sessionId timeoutMs caller w)
           = Rejected (Error ''Request timed out sending transcript'')
       \<and> (\<exists>req. abort_after req = Some timeoutMs
            \<and> requests (snd (sendTranscript txt sessionId timeoutMs caller w)) = requests w @ [req]
            \<and> aborted (snd (sendTranscript txt sessionId timeoutMs caller w)) = aborted w @ [req])
       \<and> (\<forall>key. ELEVENLABS_API_KEY cfg = Some key \<and> key \<noteq> [] \<longrightarrow>
            fst (transcribeAudio cfg fileBlob timeoutMs w)
              = Rejected (Error ''Transcription request timed out'')
          \<and> (\<exists>req. abort_after req = Some timeoutMs
               \<and> requests (snd (transcribeAudio cfg fileBlob timeoutMs w)) = requests w @ [req]
               \<and> aborted (snd (transcribeAudio cfg fileBlob timeoutMs w)) = aborted w @ [req]))"
  using assms
  by (simp add: sendTranscript_def transcribeAudio_def transcribeAudio_request_def fetch_aborts
        console_out_def next_upstream_def
        sendTranscript_catch_def transcribeAudio_catch_def AbortError_def Let_def)

theorem timeout_aborts_request_witness:
  "exceeds (next_upstream (quiet_world\<lparr>script := [Responds 20000 (json_response JNull)]\<rparr>)) 15000
   \<and> fst (sendTranscript ''help'' ''dev-1'' 15000 ''civilian''
          (quiet_world\<lparr>script := [Responds 20000 (json_response JNull)]\<rparr>))
       = Rejected (Error ''Request timed out sending transcript'')
   \<and> fst (transcribeAudio configured recording_file 15000
          (quiet_world\<lparr>script := [Responds 20000 (json_response JNull)]\<rparr>))
       = Rejected (Error ''Transcription request timed out'')"
  using timeout_aborts_request
          [of "quiet_world\<lparr>script := [Responds 20000 (json_response JNull)]\<rparr>" 15000
              "''help''" "''dev-1''" "''civilian''" configured recording_file]
  by (simp add: quiet_world_def exceeds_def timer_delay_def next_upstream_def configured_def)

text \<open>
  Claim C4 as stated fails once the response has arrived in time and its body has not:
  the timer is cleared when \<^verbatim>\<open>fetch\<close> settles, so on a body that never completes the
  exchange outlasts the timeout, nothing is aborted and the call stays pending instead of
  failing with a timeout error.
\<close>

theorem timeout_stalled_body_counterexample:
  "outlasts (next_upstream stalled_world) 15000
   \<and> fst (sendTranscript ''help'' uuid_a 15000 ''civilian'' stalled_world) = Pending
   \<and> aborted (snd (sendTranscript ''help'' uuid_a 15000 ''civilian'' stalled_world)) = []
   \<and> fst (transcribeAudio configured recording_file 15000 stalled_world) = Pending
   \<and> aborted (snd (transcribeAudio configured recording_file 15000 stalled_world)) = []"
  by (simp add: sendTranscript_def transcribeAudio_def transcribeAudio_request_def fetch_def
        next_upstream_def timer_first_def exceeds_def outlasts_def timer_delay_def res_text_def
        res_json_def console_out_def Let_def stalled_world_def quiet_world_def configured_def
        json_response_def ok_def del: JSON_stringify.simps)

section \<open>The call-started notification\<close>

text \<open>
  Claim C7. When the call-started endpoint answers with a status that is neither a success
  nor 404, \<open>notifyCivilianCallStarted\<close> rejects with an error whose message carries the
  status and the response body (nothing, if the body cannot be read), and the fallback is
  not attempted: the call-started request is the only one issued and no further upstream
  answer is consumed.
\<close>

theorem notify_other_status_no_fallback:
  assumes "script w = Responds t r # rest" and "\<not> ok r" and "status r \<noteq> 404"
  shows "fst (notifyCivilianCallStarted sessionId now w)
           = Rejected (Error (''Failed to notify call started: '' @ show_nat (status r) @ '' ''
                @ (case text_result r of Inl e \<Rightarrow> [] | Inr t \<Rightarrow> t)))
       \<and> requests (snd (notifyCivilianCallStarted sessionId now w))
           = requests w @
             [\<lparr>url = ''https://vigilis.onrender.com/incident/callStarted'', http_method = ''POST'',
               headers = json_headers,
               body = JsonBody (JSON_stringify (JObj [(''incident_id'', JStr sessionId),
                         (''caller'', JStr ''civilian''), (''timestamp'', JStr now)])),
               abort_after = None\<rparr>]
       \<and> script (snd (notifyCivilianCallStarted sessionId now w)) = rest"
  using assms
  by (simp add: notifyCivilianCallStarted_def notify_failed_def res_text_def fetch_def
        next_upstream_def timer_first_def console_out_def BASE_URL_def Let_def
        split: sum.splits)

theorem notify_other_status_no_fallback_witness:
  "fst (notifyCivilianCallStarted ''dev-1'' ''2025-01-01T00:00:00.000Z''
          (quiet_world\<lparr>script := [Responds 120 (text_response 500 ''boom'')]\<rparr>))
     = Rejected (Error ''Failed to notify call started: 500 boom'')
   \<and> length (requests (snd (notifyCivilianCallStarted ''dev-1'' ''2025-01-01T00:00:00.000Z''
          (quiet_world\<lparr>script := [Responds 120 (text_response 500 ''boom'')]\<rparr>)))) = 1"
  using notify_other_status_no_fallback
          [of "quiet_world\<lparr>script := [Responds 120 (text_response 500 ''boom'')]\<rparr>" 120
              "text_response 500 ''boom''" "[]" "''dev-1''" "''2025-01-01T00:00:00.000Z''"]
  by (simp add: quiet_world_def text_response_def ok_def show_nat.simps digit_char_def)

section \<open>The body of the update-transcript request\<close>

text \<open>
  \<open>JSON_quote\<close> can be read back: the reader recovers each character from its escaped
  form, so two strings with the same quoted form are the same string.
\<close>

lemma below_16:
  "(k::nat) < 16 \<Longrightarrow> k = 0 \<or> k = 1 \<or> k = 2 \<or> k = 3 \<or> k = 4 \<or> k = 5 \<or> k = 6 \<or> k = 7 \<or> k = 8
     \<or> k = 9 \<or> k = 10 \<or> k = 11 \<or> k = 12 \<or> k = 13 \<or> k = 14 \<or> k = 15"
  by arith

lemma hex_value_digit: "k < 16 \<Longrightarrow> hex_value (digit_char k) = k"
  using below_16[of k] by (auto simp: hex_value_def digit_char_def)

lemma read_char_escape: "read_char (escape_char c @ xs) = Some (c, xs)"
proof (cases "c = CHR 0x22 \<or> c = CHR 0x5C \<or> c = CHR 0x08 \<or> c = CHR 0x0C \<or> c = CHR 0x0A
                \<or> c = CHR 0x0D \<or> c = CHR 0x09")
  case True
  then show ?thesis by (auto simp: escape_char_def)
next
  case False
  show ?thesis
  proof (cases "(of_char c :: nat) < 32")
    case True
    define n where "n = (of_char c :: nat)"
    have d: "n div 16 < 16" "n mod 16 < 16" using True by (simp_all add: n_def)
    have "char_of (16 * (n div 16) + n mod 16) = c" by (simp add: n_def)
    with False True d show ?thesis
      by (simp add: escape_char_def n_def[symmetric] hex_value_digit)
  next
    case b: False
    with False show ?thesis by (simp add: escape_char_def)
  qed
qed

lemma read_char_quote: "read_char (CHR 0x22 # xs) = None"
  by simp

lemma escaped_inj:
  "concat (map escape_char s) @ CHR 0x22 # xs = concat (map escape_char t) @ CHR 0x22 # ys
   \<Longrightarrow> s = t \<and> xs = ys"
proof (induction s arbitrary: t)
  case Nil
  show ?case
  proof (cases t)
    case Nil
    with Nil.prems show ?thesis by simp
  next
    case (Cons d t')
    with Nil.prems have "read_char (CHR 0x22 # xs) = read_char (escape_char d @ (concat (map escape_char t') @ CHR 0x22 # ys))"
      by simp
    then show ?thesis by (simp only: read_char_escape read_char_quote) simp
  qed
next
  case (Cons c s')
  show ?case
  proof (cases t)
    case Nil
    with Cons.prems have "read_char (escape_char c @ (concat (map escape_char s') @ CHR 0x22 # xs)) = read_char (CHR 0x22 # ys)"
      by simp
    then show ?thesis by (simp only: read_char_escape read_char_quote) simp
  next
    case (Cons d t')
    with Cons.prems have "read_char (escape_char c @ (concat (map escape_char s') @ CHR 0x22 # xs))
        = read_char (escape_char d @ (concat (map escape_char t') @ CHR 0x22 # ys))"
      by simp
    then have "c = d" "concat (map escape_char s') @ CHR 0x22 # xs = concat (map escape_char t') @ CHR 0x22 # ys"
      by (simp_all only: read_char_escape option.inject prod.inject)
    with Cons.IH[of t'] Cons show ?thesis by simp
  qed
qed

lemma JSON_quote_inj: "JSON_quote s @ xs = JSON_quote t @ ys \<Longrightarrow> s = t \<and> xs = ys"
  using escaped_inj[of s xs t ys] by (simp add: JSON_quote_def)

lemma key_quotes:
  "JSON_quote ''incident_id'' = CHR 0x22 # ''incident_id'' @ [CHR 0x22]"
  "JSON_quote ''transcript'' = CHR 0x22 # ''transcript'' @ [CHR 0x22]"
  "JSON_quote ''caller'' = CHR 0x22 # ''caller'' @ [CHR 0x22]"
  by (simp_all add: JSON_quote_def escape_char_def)

lemma payload_inj:
  assumes "JSON_stringify (JObj [(''incident_id'', JStr a), (''transcript'', JStr b), (''caller'', JStr c)])
         = JSON_stringify (JObj [(''incident_id'', JStr a'), (''transcript'', JStr b'), (''caller'', JStr c')])"
  shows "a = a' \<and> b = b' \<and> c = c'"
proof -
  define q where "q = CHR 0x22"
  from assms have 1: "JSON_quote a @ ('','' @ q # ''transcript'' @ q # '':'' @ JSON_quote b
                         @ '','' @ q # ''caller'' @ q # '':'' @ JSON_quote c @ ''}'')
      = JSON_quote a' @ ('','' @ q # ''transcript'' @ q # '':'' @ JSON_quote b'
                         @ '','' @ q # ''caller'' @ q # '':'' @ JSON_quote c' @ ''}'')"
    by (simp add: key_quotes q_def)
  from JSON_quote_inj[OF 1] have a: "a = a'"
    and 2: "JSON_quote b @ ('','' @ q # ''caller'' @ q # '':'' @ JSON_quote c @ ''}'')
      = JSON_quote b' @ ('','' @ q # ''caller'' @ q # '':'' @ JSON_quote c' @ ''}'')"
    by simp_all
  from JSON_quote_inj[OF 2] have b: "b = b'" and 3: "JSON_quote c @ ''}'' = JSON_quote c' @ ''}''"
    by simp_all
  from JSON_quote_inj[OF 3] a b show ?thesis by simp
qed

lemma fetch_requests: "requests (snd (fetch req w)) = requests w @ [req]"
  by (simp add: fetch_def Let_def split: upstream.splits)

lemma sendTranscript_world:
  "snd (sendTranscript txt sessionId timeoutMs caller w)
     = snd (fetch \<lparr>url = BASE_URL @ ''/incident/update_transcript'', http_method = ''POST'',
                   headers = json_headers,
                   body = JsonBody (JSON_stringify (JObj [(''incident_id'', JStr sessionId),
                             (''transcript'', JStr txt), (''caller'', JStr caller)])),
                   abort_after = Some timeoutMs\<rparr> w)"
  by (simp add: sendTranscript_def Let_def split: prod.splits promise.splits sum.splits)

text \<open>
  Claim C3. Whatever the transcript, the incident key, the timeout and the caller role,
  \<open>sendTranscript\<close> issues exactly one request: a POST to the fixed update-transcript
  endpoint whose body is the serialized object with \<^verbatim>\<open>incident_id\<close> the given key,
  \<^verbatim>\<open>transcript\<close> the given text and \<^verbatim>\<open>caller\<close> the given role. The body determines the
  three strings: no other key, text or role serializes to the same body, so the text
  arrives character for character.
\<close>

theorem sendTranscript_request_body:
  "requests (snd (sendTranscript txt sessionId timeoutMs caller w))
     = requests w @
       [\<lparr>url = ''https://vigilis.onrender.com/incident/update_transcript'', http_method = ''POST'',
         headers = json_headers,
         body = JsonBody (JSON_stringify (JObj [(''incident_id'', JStr sessionId),
                   (''transcript'', JStr txt), (''caller'', JStr caller)])),
         abort_after = Some timeoutMs\<rparr>]
   \<and> (\<forall>sessionId' txt' caller'.
         JSON_stringify (JObj [(''incident_id'', JStr sessionId'), (''transcript'', JStr txt'),
                               (''caller'', JStr caller')])
           = JSON_stringify (JObj [(''incident_id'', JStr sessionId), (''transcript'', JStr txt),
                                   (''caller'', JStr caller)])
         \<longrightarrow> sessionId' = sessionId \<and> txt' = txt \<and> caller' = caller)"
proof (intro conjI allI impI)
  show "requests (snd (sendTranscript txt sessionId timeoutMs caller w))
     = requests w @
       [\<lparr>url = ''https://vigilis.onrender.com/incident/update_transcript'', http_method = ''POST'',
         headers = json_headers,
         body = JsonBody (JSON_stringify (JObj [(''incident_id'', JStr sessionId),
                   (''transcript'', JStr txt), (''caller'', JStr caller)])),
         abort_after = Some timeoutMs\<rparr>]"
    by (simp only: sendTranscript_world fetch_requests) (simp add: BASE_URL_def)
next
  fix a b c
  assume "JSON_stringify (JObj [(''incident_id'', JStr a), (''transcript'', JStr b), (''caller'', JStr c)])
           = JSON_stringify (JObj [(''incident_id'', JStr sessionId), (''transcript'', JStr txt),
                                   (''caller'', JStr caller)])"
  from payload_inj[OF this]
  show "a = sessionId" "b = txt" "c = caller" by simp_all
qed

theorem sendTranscript_request_body_witness:
  "JSON_stringify (JObj [(''incident_id'', JStr uuid_a), (''transcript'', JStr ''help''),
                         (''caller'', JStr ''civilian'')])
   \<noteq> JSON_stringify (JObj [(''incident_id'', JStr uuid_a), (''transcript'', JStr ''Help''),
                           (''caller'', JStr ''civilian'')])"
  using sendTranscript_request_body [of "''Help''" uuid_a 15000 "''civilian''" quiet_world]
  by (auto simp del: JSON_stringify.simps)

section \<open>The 404 fallback\<close>

text \<open>
  Claim C2. When the call-started endpoint answers 404, \<open>notifyCivilianCallStarted\<close>
  continues as \<open>sendTranscript\<close> called with the empty transcript, the same incident key,
  5000 milliseconds and the caller \<^verbatim>\<open>civilian\<close>, from a world in which only the
  call-started request has been issued. If that call rejects, the one error surfaced has
  a message containing both \<^verbatim>\<open>Failed to notify call started (404)\<close> and the fallback
  error's message. (The body of the 404 response goes to the console only.)
\<close>

theorem notify_404_fallback:
  assumes "script w = Responds t r # rest" and "status r = 404"
  shows "\<exists>w1. script w1 = rest \<and> aborted w1 = aborted w
          \<and> requests w1 = requests w @
               [\<lparr>url = ''https://vigilis.onrender.com/incident/callStarted'', http_method = ''POST'',
                 headers = json_headers,
                 body = JsonBody (JSON_stringify (JObj [(''incident_id'', JStr sessionId),
                           (''caller'', JStr ''civilian''), (''timestamp'', JStr now)])),
                 abort_after = None\<rparr>]
          \<and> snd (notifyCivilianCallStarted sessionId now w)
               = snd (sendTranscript [] sessionId 5000 ''civilian'' w1)
          \<and> (case fst (sendTranscript [] sessionId 5000 ''civilian'' w1) of
                Pending \<Rightarrow> fst (notifyCivilianCallStarted sessionId now w) = Pending
              | Fulfilled j \<Rightarrow> fst (notifyCivilianCallStarted sessionId now w) = Fulfilled AckFallback
              | Rejected fe \<Rightarrow>
                  (\<exists>msg. fst (notifyCivilianCallStarted sessionId now w) = Rejected (Error msg)
                     \<and> sublist ''Failed to notify call started (404)'' msg
                     \<and> sublist (err_message fe) msg))"
proof -
  define w0 where "w0 = console_out Log [LStr ''call started''] w"
  define req where "req = \<lparr>url = BASE_URL @ ''/incident/callStarted'', http_method = ''POST'',
                 headers = json_headers,
                 body = JsonBody (JSON_stringify (JObj [(''incident_id'', JStr sessionId),
                           (''caller'', JStr ''civilian''), (''timestamp'', JStr now)])),
                 abort_after = None\<rparr>"
  define errorBody where "errorBody = (case text_result r of Inl e \<Rightarrow> [] | Inr t \<Rightarrow> t)"
  define w1 where "w1 = console_out Log [LStr ''Falling back to sendTranscript to initialize incident'']
      (console_out Warn [LStr (''notifyCivilianCallStarted returned '' @ show_nat (status r)
                                  @ '': '' @ errorBody)]
         (w0\<lparr>script := rest, requests := requests w0 @ [req]\<rparr>))"
  have nok: "\<not> ok r" using assms(2) by (simp add: ok_def)
  have n: "notifyCivilianCallStarted sessionId now w =
      (case sendTranscript [] sessionId 5000 ''civilian'' w1 of (fb, w4) \<Rightarrow>
         (case fb of Pending \<Rightarrow> (Pending, w4)
            | Fulfilled j \<Rightarrow> (Fulfilled AckFallback, w4)
            | Rejected fe \<Rightarrow> (Rejected (Error (''Failed to notify call started (404) and fallback failed: '' @ err_message fe)), w4)))"
    using nok assms
    by (simp add: notifyCivilianCallStarted_def notify_failed_def res_text_def fetch_def
          next_upstream_def timer_first_def Let_def w1_def w0_def req_def errorBody_def
          console_out_def split: sum.splits)
  have s404: "sublist ''Failed to notify call started (404)''
                (''Failed to notify call started (404) and fallback failed: '' @ m)
              \<and> sublist m (''Failed to notify call started (404) and fallback failed: '' @ m)" for m
  proof
    have "sublist ''Failed to notify call started (404)''
            (''Failed to notify call started (404)'' @ ('' and fallback failed: '' @ m))"
      by (rule sublist_append_rightI)
    then show "sublist ''Failed to notify call started (404)''
                (''Failed to notify call started (404) and fallback failed: '' @ m)"
      by simp
    show "sublist m (''Failed to notify call started (404) and fallback failed: '' @ m)"
      by (rule sublist_append_leftI)
  qed
  show ?thesis
  proof (intro exI[of _ w1] conjI)
    show "script w1 = rest" by (simp add: w1_def console_out_def)
    show "aborted w1 = aborted w" by (simp add: w1_def w0_def console_out_def)
    show "requests w1 = requests w @
               [\<lparr>url = ''https://vigilis.onrender.com/incident/callStarted'', http_method = ''POST'',
                 headers = json_headers,
                 body = JsonBody (JSON_stringify (JObj [(''incident_id'', JStr sessionId),
                           (''caller'', JStr ''civilian''), (''timestamp'', JStr now)])),
                 abort_after = None\<rparr>]"
      by (simp add: w1_def w0_def console_out_def req_def BASE_URL_def)
    show "snd (notifyCivilianCallStarted sessionId now w)
               = snd (sendTranscript [] sessionId 5000 ''civilian'' w1)"
      by (simp add: n split: prod.splits promise.splits)
    show "case fst (sendTranscript [] sessionId 5000 ''civilian'' w1) of
                Pending \<Rightarrow> fst (notifyCivilianCallStarted sessionId now w) = Pending
              | Fulfilled j \<Rightarrow> fst (notifyCivilianCallStarted sessionId now w) = Fulfilled AckFallback
              | Rejected fe \<Rightarrow>
                  (\<exists>msg. fst (notifyCivilianCallStarted sessionId now w) = Rejected (Error msg)
                     \<and> sublist ''Failed to notify call started (404)'' msg
                     \<and> sublist (err_message fe) msg)"
    proof (cases "sendTranscript [] sessionId 5000 ''civilian'' w1")
      case (Pair fb w4)
      show ?thesis
      proof (cases fb)
        case Pending
        with Pair show ?thesis by (simp add: n)
      next
        case (Fulfilled j)
        with Pair show ?thesis by (simp add: n)
      next
        case (Rejected fe)
        have "fst (notifyCivilianCallStarted sessionId now w)
                = Rejected (Error (''Failed to notify call started (404) and fallback failed: ''
                                   @ err_message fe))"
          using Pair Rejected by (simp only: n prod.case promise.case fst_conv)
        with s404[of "err_message fe"] Pair Rejected show ?thesis
          by (simp only: fst_conv promise.case) blast
      qed
    qed

  qed
qed

theorem notify_404_fallback_witness:
  "fst (notifyCivilianCallStarted uuid_a ''2025-01-01T00:00:00.000Z''
          (quiet_world\<lparr>script := [Responds 80 (text_response 404 ''Not Found''),
                                   Responds 90 (text_response 500 ''boom'')]\<rparr>))
     = Rejected (Error
         ''Failed to notify call started (404) and fallback failed: Failed to send transcript: 500 boom'')
   \<and> last (requests (snd (notifyCivilianCallStarted uuid_a ''2025-01-01T00:00:00.000Z''
          (quiet_world\<lparr>script := [Responds 80 (text_response 404 ''Not Found''),
                                   Responds 90 (text_response 500 ''boom'')]\<rparr>))))
     = \<lparr>url = ''https://vigilis.onrender.com/incident/update_transcript'', http_method = ''POST'',
        headers = json_headers,
        body = JsonBody (JSON_stringify (JObj [(''incident_id'', JStr uuid_a),
                  (''transcript'', JStr []), (''caller'', JStr ''civilian'')])),
        abort_after = Some 5000\<rparr>"
  using notify_404_fallback [of "quiet_world\<lparr>script := [Responds 80 (text_response 404 ''Not Found''),
                                   Responds 90 (text_response 500 ''boom'')]\<rparr>"
               80 "text_response 404 ''Not Found''" "[Responds 90 (text_response 500 ''boom'')]"
               uuid_a "''2025-01-01T00:00:00.000Z''"]
  by (simp add: notifyCivilianCallStarted_def notify_failed_def sendTranscript_def
        sendTranscript_catch_def res_text_def fetch_def next_upstream_def timer_first_def
        exceeds_def timer_delay_def console_out_def Let_def quiet_world_def text_response_def
        ok_def show_nat.simps digit_char_def BASE_URL_def Error_def
        del: JSON_stringify.simps)

section \<open>The device identity\<close>

lemma getItem_result:
  "getItem k w = (r, w1) \<Longrightarrow> items w1 = items w \<and> (r = Inr (items w k) \<or> (\<exists>e. r = Inl e))"
  by (auto simp: getItem_def next_fault_def split: list.splits option.splits)

lemma setItem_result:
  "setItem k v w = (r, w1) \<Longrightarrow>
     (r = Inr () \<and> items w1 = (items w)(k \<mapsto> v)) \<or> ((\<exists>e. r = Inl e) \<and> items w1 = items w)"
  by (auto simp: setItem_def next_fault_def split: list.splits option.splits)

lemma initDeviceId_failed_frame:
  "initDeviceId_failed e s w = (s1, w1) \<Longrightarrow> deviceId s1 = deviceId s \<and> items w1 = items w"
  by (auto simp: initDeviceId_failed_def console_out_def)

lemma initDeviceId_create_cases:
  assumes "initDeviceId_create fresh s w = (s1, w1)"
  shows "(deviceId s1 = Some fresh \<and> items w1 = (items w)(DEVICE_ID_KEY \<mapsto> fresh))
       \<or> (deviceId s1 = deviceId s \<and> items w1 = items w)"
proof (cases "setItem DEVICE_ID_KEY fresh w")
  case (Pair r wa)
  from setItem_result[OF Pair] show ?thesis
  proof
    assume "r = Inr () \<and> items wa = (items w)(DEVICE_ID_KEY \<mapsto> fresh)"
    with assms Pair show ?thesis by (auto simp: initDeviceId_create_def)
  next
    assume a: "(\<exists>e. r = Inl e) \<and> items wa = items w"
    then obtain e where "r = Inl e" by blast
    with assms Pair a initDeviceId_failed_frame[of e s wa s1 w1] show ?thesis
      by (simp add: initDeviceId_create_def)
  qed
qed

lemma initDeviceId_cases:
  assumes "initDeviceId fresh s w = (s1, w1)"
  shows "(deviceId s1 = deviceId s \<and> items w1 = items w)
       \<or> (\<exists>v. v \<noteq> [] \<and> items w DEVICE_ID_KEY = Some v \<and> deviceId s1 = Some v \<and> items w1 = items w)
       \<or> ((items w DEVICE_ID_KEY = None \<or> items w DEVICE_ID_KEY = Some [])
            \<and> deviceId s1 = Some fresh \<and> items w1 = (items w)(DEVICE_ID_KEY \<mapsto> fresh))"
proof (cases "getItem DEVICE_ID_KEY w")
  case (Pair r wa)
  note g = getItem_result[OF Pair]
  show ?thesis
  proof (cases r)
    case (Inl e)
    with assms Pair g initDeviceId_failed_frame[of e s wa s1 w1] show ?thesis
      by (simp add: initDeviceId_def)
  next
    case (Inr stored)
    with g have st: "stored = items w DEVICE_ID_KEY" by simp
    show ?thesis
    proof (cases "stored = None \<or> stored = Some []")
      case True
      with assms Pair Inr have "initDeviceId_create fresh s wa = (s1, w1)"
        by (auto simp: initDeviceId_def)
      from initDeviceId_create_cases[OF this] True st g show ?thesis by auto
    next
      case False
      then obtain v where v: "stored = Some v" "v \<noteq> []" by (cases stored) auto
      with assms Pair Inr have "s1 = s\<lparr>deviceId := Some v\<rparr>" "w1 = wa"
        by (auto simp: initDeviceId_def)
      with v st g show ?thesis by auto
    qed
  qed
qed

lemma prefix_marker: "prefix recording_marker t \<Longrightarrow> prefix ''Recording'' t"
proof -
  assume "prefix recording_marker t"
  moreover have "prefix ''Recording'' recording_marker"
    by (simp add: recording_marker_def)
  ultimately show ?thesis by (rule prefix_order.trans[rotated])
qed


section \<open>The send action\<close>

text \<open>
  Claim C6. On either screen, if the transcript is still the initial placeholder, or
  begins with the recording marker, or the device identity is not resolved, the send
  action only records a non-empty error message: the screen is otherwise unchanged (it
  never enters the sending state) and the world is unchanged (no request goes out).
\<close>

theorem handleSend_rejects_placeholder:
  assumes "transcript s = initial_transcript \<or> prefix recording_marker (transcript s)
           \<or> deviceId s = None"
  shows "\<exists>msg. msg \<noteq> []
           \<and> handleSend_civilian s w = (s\<lparr>sendError := Some msg\<rparr>, w)
           \<and> handleSend_police s w = (s\<lparr>sendError := Some msg\<rparr>, w)"
proof -
  consider (a) "transcript s = [] \<or> prefix ''Recording'' (transcript s) \<or> prefix ''Tap'' (transcript s)"
    | (b) "\<not> (transcript s = [] \<or> prefix ''Recording'' (transcript s) \<or> prefix ''Tap'' (transcript s))"
          "deviceId s = None"
    using assms prefix_marker by (auto simp: initial_transcript_def)
  then show ?thesis
  proof cases
    case a
    then have "handleSend c s w = (s\<lparr>sendError := Some ''No transcript to send''\<rparr>, w)" for c
      by (simp add: handleSend_def)
    then show ?thesis
      by (intro exI[of _ "''No transcript to send''"]) (simp add: handleSend_civilian_def handleSend_police_def)
  next
    case b
    then have "handleSend c s w = (s\<lparr>sendError := Some ''Device ID not initialized''\<rparr>, w)" for c
      by (simp add: handleSend_def no_device_def)
    then show ?thesis
      by (intro exI[of _ "''Device ID not initialized''"]) (simp add: handleSend_civilian_def handleSend_police_def)
  qed
qed


theorem handleSend_rejects_placeholder_witness:
  "handleSend_civilian initial_screen quiet_world
     = (initial_screen\<lparr>sendError := Some ''No transcript to send''\<rparr>, quiet_world)
   \<and> handleSend_police (ready_screen\<lparr>deviceId := None\<rparr>) quiet_world
     = (ready_screen\<lparr>deviceId := None, sendError := Some ''Device ID not initialized''\<rparr>, quiet_world)"
  using handleSend_rejects_placeholder [of initial_screen quiet_world] handleSend_rejects_placeholder [of "ready_screen\<lparr>deviceId := None\<rparr>" quiet_world]
  by (simp add: handleSend_civilian_def handleSend_police_def handleSend_def no_device_def
        initial_screen_def initial_transcript_def ready_screen_def)

text \<open>
  Claim C8. When the send action passes its guards and \<open>sendTranscript\<close> rejects, the
  screen holds the error's message (shown in the error banner whenever it is not empty),
  holds and shows no success message, keeps the transcript and the device identity, and is
  no longer sending: the send button is disabled only if a transcription is in progress,
  and pressing it again passes the guards and issues the request again.
\<close>

theorem handleSend_failure_retryable:
  assumes guard: "\<not> (transcript s = [] \<or> prefix ''Recording'' (transcript s) \<or> prefix ''Tap'' (transcript s))"
    and dev: "deviceId s = Some dev" "dev \<noteq> []"
    and fails: "sendTranscript (transcript s) dev 15000 caller w = (Rejected err, w1)"
  shows "sendError (fst (handleSend caller s w)) = Some (err_message err)
       \<and> (err_message err \<noteq> [] \<longrightarrow> error_banner (fst (handleSend caller s w)) = Some (err_message err))
       \<and> sendSuccess (fst (handleSend caller s w)) = None
       \<and> success_banner (fst (handleSend caller s w)) = None
       \<and> transcript (fst (handleSend caller s w)) = transcript s
       \<and> deviceId (fst (handleSend caller s w)) = deviceId s
       \<and> sendLoading (fst (handleSend caller s w)) = False
       \<and> send_button_disabled (fst (handleSend caller s w)) = isLoading s
       \<and> (\<forall>w'. handleSend caller (fst (handleSend caller s w)) w'
                = handleSend_request caller dev (fst (handleSend caller s w)) w')"
proof -
  have h: "handleSend caller s w = handleSend_catch err (handleSend_start s) w1"
    using guard dev fails by (simp add: handleSend_def handleSend_request_def Let_def)
  define s' where "s' = fst (handleSend caller s w)"
  have s': "s' = s\<lparr>sendLoading := False, sendError := Some (err_message err), sendSuccess := None\<rparr>"
    by (simp add: s'_def h handleSend_catch_def handleSend_start_def)
  have again: "handleSend caller s' w' = handleSend_request caller dev s' w'" for w'
    using guard dev by (simp add: handleSend_def s')
  show ?thesis
    unfolding s'_def[symmetric]
    using again by (simp add: s' error_banner_def success_banner_def banner_def send_button_disabled_def)
qed


theorem handleSend_failure_retryable_witness:
  "sendError (fst (handleSend_civilian ready_screen
                     (quiet_world\<lparr>script := [Responds 300 (text_response 500 ''boom'')]\<rparr>)))
     = Some ''Failed to send transcript: 500 boom''
   \<and> sendLoading (fst (handleSend_civilian ready_screen
                     (quiet_world\<lparr>script := [Responds 300 (text_response 500 ''boom'')]\<rparr>))) = False
   \<and> transcript (fst (handleSend_civilian ready_screen
                     (quiet_world\<lparr>script := [Responds 300 (text_response 500 ''boom'')]\<rparr>)))
     = ''There is a fire at 5th and Main''"
proof -
  define w where "w = quiet_world\<lparr>script := [Responds 300 (text_response 500 ''boom'')]\<rparr>"
  have f: "sendTranscript (transcript ready_screen) uuid_a 15000 ''civilian'' w
             = (Rejected (Error ''Failed to send transcript: 500 boom''),
                snd (sendTranscript (transcript ready_screen) uuid_a 15000 ''civilian'' w))"
    by (simp add: sendTranscript_def sendTranscript_catch_def res_text_def fetch_def
          next_upstream_def timer_first_def exceeds_def timer_delay_def Let_def w_def
          quiet_world_def text_response_def ok_def show_nat.simps digit_char_def Error_def
          del: JSON_stringify.simps)
  have g: "\<not> (transcript ready_screen = [] \<or> prefix ''Recording'' (transcript ready_screen)
              \<or> prefix ''Tap'' (transcript ready_screen))"
    by (simp add: ready_screen_def initial_screen_def)
  have d: "deviceId ready_screen = Some uuid_a" "uuid_a \<noteq> []"
    by (simp_all add: ready_screen_def initial_screen_def uuid_a_def)
  from handleSend_failure_retryable [OF g d f]
  show ?thesis
    unfolding w_def[symmetric]
    by (simp add: handleSend_civilian_def Error_def ready_screen_def initial_screen_def)
qed

lemma initDeviceId_keeps_store:
  assumes "uuid_store w" and "fresh \<noteq> []" and "initDeviceId fresh s w = (s1, w1)"
  shows "uuid_store w1"
  using initDeviceId_cases[OF assms(3)] assms(1,2) by (auto simp: uuid_store_def)

lemma initDeviceId_no_fault:
  assumes "faults w = []" and "initDeviceId fresh s w = (s1, w1)"
  shows "faults w1 = []
       \<and> (case items w DEVICE_ID_KEY of
            None \<Rightarrow> deviceId s1 = Some fresh \<and> items w1 = (items w)(DEVICE_ID_KEY \<mapsto> fresh)
          | Some v \<Rightarrow>
              if v = [] then deviceId s1 = Some fresh \<and> items w1 = (items w)(DEVICE_ID_KEY \<mapsto> fresh)
              else deviceId s1 = Some v \<and> items w1 = items w)"
  using assms
  by (auto simp: initDeviceId_def initDeviceId_create_def getItem_def setItem_def next_fault_def
        split: option.splits if_splits)

text \<open>
  Claim C5. On the store of an installation (the device key absent or holding a
  non-empty identifier, which is all the app ever writes there), two successive
  initializations with storage available give the same non-empty identifier. Whether or
  not storage is available, an identifier present under the key is never overwritten: the
  store stays as it was through both calls. The store changes only when the key is
  absent, and then exactly by persisting the fresh identifier under the key; and a call
  leaves the store one of an installation again.
\<close>

theorem initDeviceId_idempotent:
  assumes store: "uuid_store w" and fresh: "fresh1 \<noteq> []"
    and first: "initDeviceId fresh1 s w = (s1, w1)"
    and second: "initDeviceId fresh2 s' w1 = (s2, w2)"
  shows "(faults w = [] \<longrightarrow> (\<exists>d. d \<noteq> [] \<and> deviceId s1 = Some d \<and> deviceId s2 = Some d))
       \<and> (\<forall>v. items w DEVICE_ID_KEY = Some v \<longrightarrow> items w1 = items w \<and> items w2 = items w)
       \<and> (items w1 \<noteq> items w \<longrightarrow>
            items w DEVICE_ID_KEY = None \<and> items w1 = (items w)(DEVICE_ID_KEY \<mapsto> fresh1))
       \<and> uuid_store w1"
proof (intro conjI allI impI)
  note c1 = initDeviceId_cases[OF first]
  note c2 = initDeviceId_cases[OF second]
  show k: "uuid_store w1"
    by (rule initDeviceId_keeps_store[OF store fresh first])
  {
    assume nf: "faults w = []"
    from initDeviceId_no_fault[OF nf first]
    have f1: "faults w1 = []"
      and d1: "\<exists>d. d \<noteq> [] \<and> deviceId s1 = Some d \<and> items w1 DEVICE_ID_KEY = Some d"
      using store fresh by (auto simp: uuid_store_def split: option.splits if_splits)
    then obtain d where d: "d \<noteq> []" "deviceId s1 = Some d" "items w1 DEVICE_ID_KEY = Some d"
      by blast
    from initDeviceId_no_fault[OF f1 second] d have "deviceId s2 = Some d" by simp
    with d show "\<exists>d. d \<noteq> [] \<and> deviceId s1 = Some d \<and> deviceId s2 = Some d" by blast
  }
  {
    fix v assume v: "items w DEVICE_ID_KEY = Some v"
    with store have "v \<noteq> []" by (auto simp: uuid_store_def)
    with c1 v show 1: "items w1 = items w" by auto
    with c2 v \<open>v \<noteq> []\<close> show "items w2 = items w" by auto
  }
  {
    assume "items w1 \<noteq> items w"
    with c1 store show "items w DEVICE_ID_KEY = None" by (auto simp: uuid_store_def)
  }
  {
    assume "items w1 \<noteq> items w"
    with c1 show "items w1 = (items w)(DEVICE_ID_KEY \<mapsto> fresh1)" by auto
  }
qed

theorem initDeviceId_idempotent_witness:
  "uuid_store quiet_world \<and> uuid_a \<noteq> [] \<and> faults quiet_world = []
   \<and> deviceId (fst (initDeviceId uuid_a initial_screen quiet_world)) = Some uuid_a
   \<and> deviceId (fst (initDeviceId uuid_b initial_screen
                      (snd (initDeviceId uuid_a initial_screen quiet_world)))) = Some uuid_a
   \<and> items (snd (initDeviceId uuid_b initial_screen
                      (snd (initDeviceId uuid_a initial_screen quiet_world)))) DEVICE_ID_KEY
       = Some uuid_a"
  using initDeviceId_idempotent [of quiet_world uuid_a initial_screen
               "fst (initDeviceId uuid_a initial_screen quiet_world)"
               "snd (initDeviceId uuid_a initial_screen quiet_world)"
               uuid_b initial_screen
               "fst (initDeviceId uuid_b initial_screen (snd (initDeviceId uuid_a initial_screen quiet_world)))"
               "snd (initDeviceId uuid_b initial_screen (snd (initDeviceId uuid_a initial_screen quiet_world)))"]
  by (simp add: initDeviceId_def initDeviceId_create_def getItem_def setItem_def next_fault_def
        quiet_world_def initial_screen_def uuid_a_def uuid_b_def DEVICE_ID_KEY_def uuid_store_def)

section \<open>Extracting the transcription text\<close>

lemma js_get_not_null: "c \<noteq> JNull \<Longrightarrow> \<exists>v. js_get c k = Inr v"
  by (cases c) simp_all

lemma channel_text_not_null: "c \<noteq> JNull \<Longrightarrow> channel_text c = Inr (channel_pick c)"
proof -
  assume c: "c \<noteq> JNull"
  obtain a b d where "js_get c ''content'' = Inr a" "js_get c ''text'' = Inr b"
      "js_get c ''transcript'' = Inr d"
    using js_get_not_null[OF c] by metis
  then show ?thesis by (simp add: channel_pick_def channel_text_def)
qed

lemma map_channels_not_null: "JNull \<notin> set cs \<Longrightarrow> map_channels cs = Inr (map channel_pick cs)"
  by (induction cs) (simp_all add: channel_text_not_null[OF not_sym])

lemma blank_channel_falsy: "blank_channel c \<Longrightarrow> \<not> truthy_val (channel_pick c)"
  by (cases c) (auto simp: blank_channel_def blank_field_def channel_pick_def channel_text_def TypeError_read_def)

lemma channel_texts_drop_blank:
  "channel_texts (filter (\<lambda>c. \<not> blank_channel c) cs) = channel_texts cs"
  by (induction cs) (auto simp: channel_texts_def blank_channel_falsy)

lemma channel_texts_all_blank: "\<forall>c\<in>set cs. blank_channel c \<Longrightarrow> channel_texts cs = []"
  by (induction cs) (auto simp: channel_texts_def blank_channel_falsy)

lemma string_field_obj:
  "string_field k (JObj kvs) = Inr (if is_string (map_of kvs k) then Some (the_string (map_of kvs k)) else None)"
  by (cases "map_of kvs k") (auto simp: string_field_def is_string_def)

lemma string_field_arr: "string_field k (JArr xs) = Inr None"
  by (simp add: string_field_def)

lemma channels_step_arr: "channels_step (JArr xs) = Inr None"
  by (simp add: channels_step_def)

lemma channels_step_obj:
  assumes "is_array (map_of kvs ''channels'') \<longrightarrow> JNull \<notin> set (the_array (map_of kvs ''channels''))"
  shows "channels_step (JObj kvs) =
     Inr (if is_array (map_of kvs ''channels'') \<and> channel_texts (the_array (map_of kvs ''channels'')) \<noteq> []
          then Some (js_join '' '' (channel_texts (the_array (map_of kvs ''channels'')))) else None)"
proof (cases "map_of kvs ''channels''")
  case None
  then show ?thesis by (simp add: channels_step_def is_array_def)
next
  case (Some v)
  show ?thesis
  proof (cases "is_array (Some v)")
    case True
    with assms Some have "map_channels (the_array (Some v)) = Inr (map channel_pick (the_array (Some v)))"
      by (simp add: map_channels_not_null)
    with True Some show ?thesis
      by (simp add: channels_step_def channel_texts_def Let_def)
  next
    case False
    with Some show ?thesis by (simp add: channels_step_def)
  qed
qed

lemma extract_text_policy:
  assumes prim: "case data of JBool b \<Rightarrow> \<not> b | JNum n \<Rightarrow> n = 0 | _ \<Rightarrow> True"
    and chan: "\<forall>kvs. data = JObj kvs \<and> \<not> is_string (map_of kvs ''text'')
                 \<and> \<not> is_string (map_of kvs ''content'') \<and> \<not> is_string (map_of kvs ''transcript'')
                 \<and> is_array (map_of kvs ''channels'')
               \<longrightarrow> JNull \<notin> set (the_array (map_of kvs ''channels''))"
  shows "extract_text data = Inr (extraction_policy data)"
proof (cases data)
  case (JObj kvs)
  show ?thesis
  proof (cases "is_string (map_of kvs ''text'') \<or> is_string (map_of kvs ''content'')
                 \<or> is_string (map_of kvs ''transcript'')")
    case True
    then show ?thesis
      by (auto simp: JObj extract_text_def extraction_policy_def string_field_obj)
  next
    case False
    with chan JObj have "is_array (map_of kvs ''channels'') \<longrightarrow> JNull \<notin> set (the_array (map_of kvs ''channels''))"
      by simp
    from channels_step_obj[OF this] False show ?thesis
      by (simp add: JObj extract_text_def extraction_policy_def string_field_obj)
  qed
next
  case (JArr xs)
  then show ?thesis
    by (simp add: extract_text_def extraction_policy_def string_field_arr channels_step_arr)
qed (use prim in \<open>simp_all add: extract_text_def extraction_policy_def\<close>)

lemma transcribeAudio_answered:
  assumes "ELEVENLABS_API_KEY cfg = Some key" "key \<noteq> []"
    and "answer w timeoutMs = Some r" "ok r" "json_result r = Inr data"
  shows "fst (transcribeAudio cfg fileBlob timeoutMs w)
           = (case extract_text data of Inl e \<Rightarrow> Rejected (transcribeAudio_catch e) | Inr s \<Rightarrow> Fulfilled s)"
proof -
  from assms(3) obtain t rest where s: "script w = Responds t r # rest"
      and e: "\<not> exceeds (Responds t r) timeoutMs"
    by (auto simp: answer_def split: list.splits upstream.splits if_splits)
  show ?thesis
    using assms(1,2,4,5) s e
    by (simp add: transcribeAudio_def transcribeAudio_request_def res_json_def fetch_def
          next_upstream_def timer_first_def console_out_def Let_def split: sum.splits)
qed


lemma answering_answer: "answer (answering j) 60000 = Some (json_response j)"
  by (simp add: answering_def answer_def quiet_world_def exceeds_def timer_delay_def)

lemma json_response_ok: "ok (json_response j)" "json_result (json_response j) = Inr j"
  by (simp_all add: json_response_def ok_def)

lemma configured_key: "ELEVENLABS_API_KEY configured = Some ''xi-key''" "''xi-key'' \<noteq> []"
  by (simp_all add: configured_def)


text \<open>
  Claim C1, as amended. For a success-status response answered in time whose body parses
  to a JSON value that is neither \<^verbatim>\<open>true\<close> nor a non-zero number, and whose \<^verbatim>\<open>channels\<close>
  array, when the extraction gets to it, has no \<^verbatim>\<open>null\<close> entry, \<open>transcribeAudio\<close> fulfils
  with the text of the extraction order: the fixed text for a body that is \<^verbatim>\<open>null\<close>,
  \<^verbatim>\<open>false\<close>, zero or the empty string; else the body if it is a string; else the \<^verbatim>\<open>text\<close>
  field if it is a string; else \<^verbatim>\<open>content\<close> if it is a string; else \<^verbatim>\<open>transcript\<close> if it is
  a string; else the truthy channel texts joined by a single space if \<^verbatim>\<open>channels\<close> is an
  array and there are any; else the diagnostic text ending in the serialized body.
\<close>

theorem transcribeAudio_extraction_order:
  assumes "ELEVENLABS_API_KEY cfg = Some key" and "key \<noteq> []"
    and "answer w timeoutMs = Some r" and "ok r" and "json_result r = Inr data"
    and "case data of JBool b \<Rightarrow> \<not> b | JNum n \<Rightarrow> n = 0 | _ \<Rightarrow> True"
    and "\<forall>kvs. data = JObj kvs \<and> \<not> is_string (map_of kvs ''text'')
                 \<and> \<not> is_string (map_of kvs ''content'') \<and> \<not> is_string (map_of kvs ''transcript'')
                 \<and> is_array (map_of kvs ''channels'')
               \<longrightarrow> JNull \<notin> set (the_array (map_of kvs ''channels''))"
  shows "fst (transcribeAudio cfg fileBlob timeoutMs w) = Fulfilled (extraction_policy data)"
  using transcribeAudio_answered[OF assms(1-5)] extract_text_policy[OF assms(6,7)]
  by simp

theorem transcribeAudio_extraction_order_witness:
  "fst (transcribeAudio configured recording_file 60000 (answering ex_text)) = Fulfilled ''hello''
 \<and> fst (transcribeAudio configured recording_file 60000 (answering ex_channels)) = Fulfilled ''a b''
 \<and> fst (transcribeAudio configured recording_file 60000 (answering (JObj [])))
      = Fulfilled ''Unexpected transcription response: {}''"
proof (intro conjI)
  show "fst (transcribeAudio configured recording_file 60000 (answering ex_text)) = Fulfilled ''hello''"
    using transcribeAudio_extraction_order[where data = ex_text and fileBlob = recording_file,
            OF configured_key answering_answer json_response_ok]
    by (simp add: ex_text_def extraction_policy_def is_string_def the_string_def)
  show "fst (transcribeAudio configured recording_file 60000 (answering ex_channels)) = Fulfilled ''a b''"
    using transcribeAudio_extraction_order[where data = ex_channels and fileBlob = recording_file,
            OF configured_key answering_answer json_response_ok]
    by (simp add: ex_channels_def extraction_policy_def is_string_def is_array_def the_array_def
          channel_texts_def channel_pick_def channel_text_def js_join_def)
  show "fst (transcribeAudio configured recording_file 60000 (answering (JObj [])))
      = Fulfilled ''Unexpected transcription response: {}''"
    using transcribeAudio_extraction_order[where data = "JObj []" and fileBlob = recording_file,
            OF configured_key answering_answer json_response_ok]
    by (simp add: extraction_policy_def is_string_def is_array_def unexpected_response_def)
qed

text \<open>
  Claim C1 as stated fails on the body \<^verbatim>\<open>null\<close>: none of the fields applies, and the text
  returned is the fixed one, which does not contain the serialized body.
\<close>

theorem transcribeAudio_null_body_counterexample:
  "fst (transcribeAudio configured recording_file 60000 (answering JNull))
     = Fulfilled ''No transcription returned from ElevenLabs.''
   \<and> \<not> sublist (JSON_stringify JNull) ''No transcription returned from ElevenLabs.''"
  by (simp add: transcribeAudio_def transcribeAudio_request_def res_json_def fetch_def
        next_upstream_def timer_first_def console_out_def Let_def answering_def quiet_world_def
        configured_def json_response_def ok_def exceeds_def timer_delay_def extract_text_def
        sublist_Cons_right)


text \<open>
  For channel entries other than \<^verbatim>\<open>null\<close> the channels step does drop the entries whose
  \<^verbatim>\<open>content\<close>, \<^verbatim>\<open>text\<close> and \<^verbatim>\<open>transcript\<close> are all absent or empty, and gives the diagnostic
  text when nothing is left to join.
\<close>

lemma channels_blank_entries_not_null:
  assumes "ELEVENLABS_API_KEY cfg = Some key" and "key \<noteq> []"
    and "answer w timeoutMs = Some r" and "ok r" and "json_result r = Inr (JObj kvs)"
    and "\<not> is_string (map_of kvs ''text'')" and "\<not> is_string (map_of kvs ''content'')"
    and "\<not> is_string (map_of kvs ''transcript'')"
    and "map_of kvs ''channels'' = Some (JArr cs)" and "JNull \<notin> set cs"
  shows "fst (transcribeAudio cfg fileBlob timeoutMs w)
           = Fulfilled (if channel_texts (filter (\<lambda>c. \<not> blank_channel c) cs) = []
                        then unexpected_response (JObj kvs)
                        else js_join '' '' (channel_texts (filter (\<lambda>c. \<not> blank_channel c) cs)))
       \<and> ((\<forall>c\<in>set cs. blank_channel c) \<longrightarrow>
            fst (transcribeAudio cfg fileBlob timeoutMs w) = Fulfilled (unexpected_response (JObj kvs)))"
proof -
  have "extract_text (JObj kvs) = Inr (extraction_policy (JObj kvs))"
    using assms(9,10) by (intro extract_text_policy) (simp_all add: the_array_def)
  with transcribeAudio_answered[OF assms(1-5)]
  have "fst (transcribeAudio cfg fileBlob timeoutMs w) = Fulfilled (extraction_policy (JObj kvs))"
    by simp
  moreover have "extraction_policy (JObj kvs)
      = (if channel_texts cs = [] then unexpected_response (JObj kvs) else js_join '' '' (channel_texts cs))"
    using assms(6-9) by (simp add: extraction_policy_def is_array_def the_array_def)
  ultimately show ?thesis
    by (simp add: channel_texts_drop_blank channel_texts_all_blank)
qed

text \<open>
  Claim C9. In the channels step, entries whose \<^verbatim>\<open>content\<close>, \<^verbatim>\<open>text\<close> and \<^verbatim>\<open>transcript\<close> are
  all absent or empty are to be dropped before joining, and when every entry is dropped
  the diagnostic text with the serialized body is to be returned. The code does not do
  this for a \<^verbatim>\<open>null\<close> entry, which has none of the three: on the success body
  \<^verbatim>\<open>{"channels":[null]}\<close> reading \<^verbatim>\<open>c.content\<close> throws, and \<open>transcribeAudio\<close> rejects with
  that \<^verbatim>\<open>TypeError\<close> instead of fulfilling with the diagnostic text.
\<close>

theorem transcribeAudio_null_channel_throws:
  "fst (transcribeAudio configured recording_file 60000 (answering ex_null_channel))
     = Rejected (TypeError_read ''content'')
   \<and> fst (transcribeAudio configured recording_file 60000 (answering ex_null_channel))
     \<noteq> Fulfilled (unexpected_response ex_null_channel)"
  by (simp add: transcribeAudio_def transcribeAudio_request_def res_json_def fetch_def
        next_upstream_def timer_first_def console_out_def Let_def answering_def quiet_world_def
        configured_def json_response_def ok_def exceeds_def timer_delay_def extract_text_def
        string_field_def channels_step_def is_array_def the_array_def channel_text_def
        transcribeAudio_catch_def TypeError_read_def ex_null_channel_def)

text \<open>
  The inputs the amended claim C1 leaves out: on a body that is \<^verbatim>\<open>true\<close>, and on a
  \<^verbatim>\<open>channels\<close> array with a \<^verbatim>\<open>null\<close> entry, an exception is thrown inside the extraction.
\<close>

lemma extract_text_throws_true:
  "extract_text (JBool True) = Inl (TypeError_in ''text'' ''true'')"
  by (simp add: extract_text_def string_field_def)

lemma extract_text_throws_null_channel:
  "extract_text ex_null_channel = Inl (TypeError_read ''content'')"
  by (simp add: extract_text_def string_field_def channels_step_def is_array_def the_array_def
        channel_text_def ex_null_channel_def)

end
